theory Spec2Isabelle
  imports Complex_Main
begin

section \<open>JavaScript values used by the receipt tracker\<close>

text \<open>
  A JavaScript number that is either \<open>NaN\<close> or a whole number. Every number the
  modelled code computes comes out of \<open>Math.ceil\<close>, a subtraction of whole numbers or a
  JSON body field that the \<open>Receipt\<close> interface declares as a day count. \<open>-0\<close> is
  identified with \<open>0\<close>: the two agree under every comparison, under \<open>||\<close> and under
  \<open>18 - x\<close>, which is all the code does with them.
\<close>

datatype jsnum = JNaN | JNum int

text \<open>Comparisons with a number literal; every comparison with \<open>NaN\<close> is false.\<close>

fun js_gt :: "jsnum \<Rightarrow> int \<Rightarrow> bool" where
  "js_gt JNaN k = False"
| "js_gt (JNum n) k = (k < n)"

fun js_ge :: "jsnum \<Rightarrow> int \<Rightarrow> bool" where
  "js_ge JNaN k = False"
| "js_ge (JNum n) k = (k \<le> n)"

fun js_le :: "jsnum \<Rightarrow> int \<Rightarrow> bool" where
  "js_le JNaN k = False"
| "js_le (JNum n) k = (n \<le> k)"

text \<open>Subtraction \<open>a - b\<close>; \<open>NaN\<close> is absorbing.\<close>

fun js_minus :: "jsnum \<Rightarrow> jsnum \<Rightarrow> jsnum" where
  "js_minus (JNum a) (JNum b) = JNum (a - b)"
| "js_minus _ _ = JNaN"

text \<open>
  \<open>Math.ceil(x / d)\<close> for a whole \<open>x\<close> and a positive whole \<open>d\<close>. The code divides a
  difference of two time values by \<open>86400000\<close>. A time value is a whole number of at
  most \<open>8.64e15\<close> in magnitude, so the difference is exact and the quotient is below
  \<open>2^27\<close>, where doubles lie \<open>2^-26\<close> apart: less than twice \<open>1 / 86400000\<close>. The
  rounded quotient of a non-multiple is therefore not whole, and \<open>Math.ceil\<close> gives the
  integer the exact ceiling gives.
\<close>

fun Math_ceil_div :: "jsnum \<Rightarrow> int \<Rightarrow> jsnum" where
  "Math_ceil_div JNaN d = JNaN"
| "Math_ceil_div (JNum x) d = JNum (- ((- x) div d))"

text \<open>Decimal rendering of a number inside a template string.\<close>

definition digit_char :: "nat \<Rightarrow> char" where
  "digit_char d = ''0123456789'' ! d"

fun show_nat :: "nat \<Rightarrow> string" where
  "show_nat n = (if n < 10 then [digit_char n] else show_nat (n div 10) @ [digit_char (n mod 10)])"

definition show_int :: "int \<Rightarrow> string" where
  "show_int i = (if i < 0 then CHR ''-'' # show_nat (nat (- i)) else show_nat (nat i))"

section \<open>Dates: \<open>new Date(string).getTime()\<close>\<close>

text \<open>
  How an engine reads a date string is outside the repository, and ECMAScript fixes it
  only for the date-time string format. The engine's \<open>new Date(s).getTime()\<close> is
  therefore an argument \<open>getTime\<close> of the model, \<open>NaN\<close> for an Invalid Date. What
  is asked of it is what ECMAScript fixes for the form the \<open>Receipt\<close> interface
  declares for \<open>orderDate\<close>: a calendar date \<open>YYYY-MM-DD\<close> is midnight UTC of that day
  (\<open>es_date_only\<close> below). Nothing is assumed of any other string.
\<close>

text \<open>The value of a decimal digit, from its character code (48 to 57).\<close>

definition digit_val :: "char \<Rightarrow> int option" where
  "digit_val c =
     (let k = (of_char c :: int) in if 48 \<le> k \<and> k \<le> 57 then Some (k - 48) else None)"

fun digits_val :: "int \<Rightarrow> string \<Rightarrow> int option" where
  "digits_val acc [] = Some acc"
| "digits_val acc (c # cs) =
     (case digit_val c of None \<Rightarrow> None | Some d \<Rightarrow> digits_val (10 * acc + d) cs)"

definition InLeapYear :: "int \<Rightarrow> bool" where
  "InLeapYear y = (y mod 4 = 0 \<and> (y mod 100 \<noteq> 0 \<or> y mod 400 = 0))"

definition DayFromYear :: "int \<Rightarrow> int" where
  "DayFromYear y =
     365 * (y - 1970) + (y - 1969) div 4 - (y - 1901) div 100 + (y - 1601) div 400"

definition DaysInMonth :: "int \<Rightarrow> int \<Rightarrow> int" where
  "DaysInMonth y m =
     (if m = 2 then (if InLeapYear y then 29 else 28)
      else if m = 4 \<or> m = 6 \<or> m = 9 \<or> m = 11 then 30 else 31)"

definition DaysBeforeMonth :: "int \<Rightarrow> int \<Rightarrow> int" where
  "DaysBeforeMonth y m =
     [0, 31, 59, 90, 120, 151, 181, 212, 243, 273, 304, 334] ! nat (m - 1)
       + (if 2 < m \<and> InLeapYear y then 1 else 0)"

definition msPerDay :: int where
  "msPerDay = 1000 * 60 * 60 * 24"

text \<open>The day number of \<open>YYYY-MM-DD\<close>, when the ten characters are a calendar date.\<close>

definition parse_date_only :: "string \<Rightarrow> int option" where
  "parse_date_only s =
     (if length s = 10 \<and> s ! 4 = CHR ''-'' \<and> s ! 7 = CHR ''-'' then
        (case (digits_val 0 (take 4 s), digits_val 0 (take 2 (drop 5 s)),
               digits_val 0 (take 2 (drop 8 s))) of
           (Some y, Some m, Some d) \<Rightarrow>
             (if 1 \<le> m \<and> m \<le> 12 \<and> 1 \<le> d \<and> d \<le> DaysInMonth y m
              then Some (DayFromYear y + DaysBeforeMonth y m + (d - 1)) else None)
         | _ \<Rightarrow> None)
      else None)"

text \<open>
  An engine reads date-only strings as ECMAScript fixes them: the time value of a
  calendar date is its day number times the milliseconds of a day.
\<close>

definition es_date_only :: "(string \<Rightarrow> jsnum) \<Rightarrow> bool" where
  "es_date_only getTime =
     (\<forall>s day. parse_date_only s = Some day \<longrightarrow> getTime s = JNum (day * msPerDay))"

text \<open>
  One such reader, for evaluating examples: it reads the calendar dates \<open>YYYY-MM-DD\<close>
  and nothing else. It stands for no engine; the theorems are stated for every
  \<open>getTime\<close> with \<open>es_date_only\<close>.
\<close>

definition date_only_getTime :: "string \<Rightarrow> jsnum" where
  "date_only_getTime s =
     (case parse_date_only s of None \<Rightarrow> JNaN | Some day \<Rightarrow> JNum (day * msPerDay))"

section \<open>The aging calculator (geminiService: \<open>calculateDateDifference\<close>)\<close>

text \<open>
  Both copies of the service compute the pair \<open>{daysPassed, daysLeft}\<close> the same way,
  against the fixed day \<open>2025-10-24\<close>. The result is the pair
  \<open>(daysPassed, daysLeft)\<close>; \<open>getTime\<close> is the engine's reading of a date string.
\<close>

definition calculateDateDifference :: "(string \<Rightarrow> jsnum) \<Rightarrow> string \<Rightarrow> jsnum \<times> jsnum" where
  "calculateDateDifference getTime orderDate =
     (if orderDate = ''N/A'' then (JNum 0, JNum 18)
      else
        let today = getTime ''2025-10-24'';
            orderDateTime = getTime orderDate;
            todayTime = today;
            diffTime = js_minus todayTime orderDateTime;
            daysPassed = Math_ceil_div diffTime (1000 * 60 * 60 * 24);
            daysLeft = js_minus (JNum 18) daysPassed
        in (daysPassed, daysLeft))"

section \<open>The status classifier (ReceiptRow)\<close>

text \<open>The \<open>Status\<close> enum of the front end and the strings it stands for.\<close>

datatype Status = Pending | Done | Delayed

fun Status_value :: "Status \<Rightarrow> string" where
  "Status_value Pending = ''Pending''"
| "Status_value Done = ''Done''"
| "Status_value Delayed = ''Delayed/Excused''"

record styling =
  border :: string
  text_class :: string

text \<open>\<open>getUrgencyStyling\<close>, as a function of the receipt's status and days passed.\<close>

definition getUrgencyStyling :: "Status \<Rightarrow> jsnum \<Rightarrow> styling" where
  "getUrgencyStyling st dp =
     (if st = Done then \<lparr>border = ''border-l-4 border-gray-600'', text_class = ''text-gray-400''\<rparr>
      else if js_gt dp 18 then
        \<lparr>border = ''border-l-4 border-red-500'', text_class = ''text-red-400''\<rparr>
      else if js_ge dp 9 \<and> js_le dp 18 then
        \<lparr>border = ''border-l-4 border-yellow-500'', text_class = ''text-yellow-400''\<rparr>
      else \<lparr>border = ''border-l-4 border-green-500'', text_class = ''text-green-400''\<rparr>)"

text \<open>The tier label rendered under the order date.\<close>

definition tierLabel :: "Status \<Rightarrow> jsnum \<Rightarrow> string" where
  "tierLabel st dp =
     (if st = Done then ''COMPLETED''
      else (if js_gt dp 18 then ''OVERDUE''
            else (if js_ge dp 9 then ''DUE SOON'' else ''OK'')))"

text \<open>
  The classifier as the specification words it: four tiers, the rules tried in order.
\<close>

datatype Tier = OK | DUE_SOON | OVERDUE | COMPLETED

definition classify_spec :: "Status \<Rightarrow> jsnum \<Rightarrow> Tier" where
  "classify_spec st dp =
     (if st = Done then COMPLETED
      else if js_gt dp 18 then OVERDUE
      else if js_ge dp 9 \<and> js_le dp 18 then DUE_SOON
      else OK)"

fun Tier_label :: "Tier \<Rightarrow> string" where
  "Tier_label OK = ''OK''"
| "Tier_label DUE_SOON = ''DUE SOON''"
| "Tier_label OVERDUE = ''OVERDUE''"
| "Tier_label COMPLETED = ''COMPLETED''"

fun Tier_styling :: "Tier \<Rightarrow> styling" where
  "Tier_styling COMPLETED = \<lparr>border = ''border-l-4 border-gray-600'', text_class = ''text-gray-400''\<rparr>"
| "Tier_styling OVERDUE = \<lparr>border = ''border-l-4 border-red-500'', text_class = ''text-red-400''\<rparr>"
| "Tier_styling DUE_SOON = \<lparr>border = ''border-l-4 border-yellow-500'', text_class = ''text-yellow-400''\<rparr>"
| "Tier_styling OK = \<lparr>border = ''border-l-4 border-green-500'', text_class = ''text-green-400''\<rparr>"

section \<open>Request bodies and stored receipts\<close>

text \<open>
  A JSON body field is absent (\<open>undefined\<close> after destructuring) or present with the
  type the \<open>Receipt\<close> interface declares for it. A string field is falsy when it is
  absent or empty, a number field when it is absent or zero.
\<close>

fun falsy_str :: "string option \<Rightarrow> bool" where
  "falsy_str None = True"
| "falsy_str (Some s) = (s = [])"

text \<open>\<open>x || d\<close> on a string field and on a number field.\<close>

fun or_str :: "string option \<Rightarrow> string \<Rightarrow> string" where
  "or_str None d = d"
| "or_str (Some s) d = (if s = [] then d else s)"

fun or_int :: "int option \<Rightarrow> int \<Rightarrow> int" where
  "or_int None d = d"
| "or_int (Some n) d = (if n = 0 then d else n)"

record post_body =
  b_imageSrc :: "string option"
  b_extractedText :: "string option"
  b_orderDate :: "string option"
  b_daysPassed :: "int option"
  b_daysLeft :: "int option"
  b_fileName :: "string option"

record put_body =
  b_status :: "string option"
  b_note :: "string option"
  b_updatedBy :: "string option"

text \<open>
  The fields of a stored receipt. Timestamps are milliseconds since the epoch: the
  in-memory server stores \<open>new Date().toISOString()\<close> and reads it back with
  \<open>new Date(...)\<close>, which loses nothing. The in-memory server adds the numeric \<open>id\<close>
  (named \<open>id'\<close> here, as \<open>note\<close> is named \<open>note'\<close>); a Firestore document carries the fields without it.
\<close>

record receiptData =
  imageSrc :: string
  extractedText :: string
  orderDate :: string
  daysPassed :: int
  daysLeft :: int
  status :: string
  note' :: string
  fileName :: string
  uploadedAt :: int
  updatedAt :: int
  updatedBy :: string

record receipt = receiptData +
  id' :: int

datatype payload =
  PError string
| PReceipt receipt
| PReceipts "receipt list"
| PDeleted "int option"
| PDoc string receiptData
| PDocs "(string \<times> receiptData) list"
| PDeletedDoc string

record response =
  code :: nat
  payload :: payload

section \<open>The in-memory server\<close>

text \<open>The two module variables: the array \<open>receipts\<close> and the counter \<open>receiptId\<close>.\<close>

record store =
  receipts :: "receipt list"
  receiptId :: int

text \<open>
  Every handler takes the clock reading \<open>now\<close> of the request (the handler is
  synchronous; its reads of the clock are taken as one instant), and returns the store
  after the request with the response.
\<close>

text \<open>
  \<open>GET /api/receipts\<close>: \<open>Array.prototype.sort\<close> sorts the module's array in place and
  is stable; the comparator \<open>new Date(b.uploadedAt) - new Date(a.uploadedAt)\<close> orders by
  \<open>uploadedAt\<close>, latest first.
\<close>

definition get_receipts :: "store \<Rightarrow> store \<times> response" where
  "get_receipts st =
     (let sortedReceipts = sort_key (\<lambda>r. - uploadedAt r) (receipts st)
      in (st\<lparr>receipts := sortedReceipts\<rparr>, \<lparr>code = 200, payload = PReceipts sortedReceipts\<rparr>))"

text \<open>\<open>POST /api/receipts\<close>.\<close>

definition post_receipt :: "int \<Rightarrow> post_body \<Rightarrow> store \<Rightarrow> store \<times> response" where
  "post_receipt now body st =
     (if falsy_str (b_imageSrc body) \<or> falsy_str (b_extractedText body) then
        (st, \<lparr>code = 400, payload = PError ''imageSrc and extractedText are required''\<rparr>)
      else
        let newReceipt =
              \<lparr>imageSrc = the (b_imageSrc body),
               extractedText = the (b_extractedText body),
               orderDate = or_str (b_orderDate body) ''N/A'',
               daysPassed = or_int (b_daysPassed body) 0,
               daysLeft = or_int (b_daysLeft body) 18,
               status = ''Pending'',
               note' = [],
               fileName = or_str (b_fileName body) (''receipt-'' @ show_int now),
               uploadedAt = now,
               updatedAt = now,
               updatedBy = ''system'',
               id' = receiptId st\<rparr>
        in (st\<lparr>receipts := receipts st @ [newReceipt], receiptId := receiptId st + 1\<rparr>,
            \<lparr>code = 201, payload = PReceipt newReceipt\<rparr>))"

text \<open>
  \<open>PUT /api/receipts/:id\<close>. The argument \<open>pid\<close> is \<open>parseInt(id)\<close> of the path
  parameter, \<open>None\<close> when it is \<open>NaN\<close> (which \<open>===\<close> equals nothing). The handler
  mutates the object \<open>find\<close> returned, that is the first array element with that id.
\<close>

fun replace_first :: "('a \<Rightarrow> bool) \<Rightarrow> 'a \<Rightarrow> 'a list \<Rightarrow> 'a list" where
  "replace_first P y [] = []"
| "replace_first P y (x # xs) = (if P x then y # xs else x # replace_first P y xs)"

definition put_receipt :: "int \<Rightarrow> int option \<Rightarrow> put_body \<Rightarrow> store \<Rightarrow> store \<times> response" where
  "put_receipt now pid body st =
     (case find (\<lambda>r. Some (id' r) = pid) (receipts st) of
        None \<Rightarrow> (st, \<lparr>code = 404, payload = PError ''Receipt not found''\<rparr>)
      | Some receipt \<Rightarrow>
          let r1 = (if falsy_str (b_status body) then receipt
                    else receipt\<lparr>status := the (b_status body)\<rparr>);
              r2 = (case b_note body of None \<Rightarrow> r1 | Some n \<Rightarrow> r1\<lparr>note' := n\<rparr>);
              r3 = r2\<lparr>updatedAt := now\<rparr>;
              r4 = r3\<lparr>updatedBy := or_str (b_updatedBy body) ''user''\<rparr>
          in (st\<lparr>receipts := replace_first (\<lambda>r. Some (id' r) = pid) r4 (receipts st)\<rparr>,
              \<lparr>code = 200, payload = PReceipt r4\<rparr>))"

text \<open>\<open>DELETE /api/receipts/:id\<close>, with \<open>pid\<close> as above.\<close>

definition delete_receipt :: "int option \<Rightarrow> store \<Rightarrow> store \<times> response" where
  "delete_receipt pid st =
     (let initialLength = length (receipts st);
          st' = st\<lparr>receipts := filter (\<lambda>r. Some (id' r) \<noteq> pid) (receipts st)\<rparr>
      in if length (receipts st') = initialLength then
           (st', \<lparr>code = 404, payload = PError ''Receipt not found''\<rparr>)
         else (st', \<lparr>code = 200, payload = PDeleted pid\<rparr>))"

text \<open>\<open>GET /api/alerts\<close>.\<close>

definition get_alerts :: "store \<Rightarrow> store \<times> response" where
  "get_alerts st =
     (let alerts = filter (\<lambda>r. status r = ''Pending'' \<and> 5 \<le> daysPassed r \<and> daysPassed r \<le> 18)
                     (receipts st)
      in (st, \<lparr>code = 200, payload = PReceipts alerts\<rparr>))"

section \<open>The client pipeline (geminiService: \<open>processReceiptFile\<close>)\<close>

text \<open>
  The body \<open>processReceiptFile\<close> posts for a file whose extracted text and order date
  are known. \<open>JSON.stringify\<close> writes \<open>NaN\<close> as \<open>null\<close>, which the server's \<open>||\<close>
  treats as it treats an absent field. The body's \<open>status\<close> and \<open>note\<close> are not read
  by the server.
\<close>

fun json_num :: "jsnum \<Rightarrow> int option" where
  "json_num JNaN = None"
| "json_num (JNum n) = Some n"

definition receiptData_body ::
  "(string \<Rightarrow> jsnum) \<Rightarrow> string \<Rightarrow> string \<Rightarrow> string \<Rightarrow> string \<Rightarrow> post_body" where
  "receiptData_body getTime imageSrc0 extractedText0 orderDate0 fileName0 =
     (let (daysPassed0, daysLeft0) = calculateDateDifference getTime orderDate0
      in \<lparr>b_imageSrc = Some imageSrc0,
          b_extractedText = Some extractedText0,
          b_orderDate = Some orderDate0,
          b_daysPassed = json_num daysPassed0,
          b_daysLeft = json_num daysLeft0,
          b_fileName = Some fileName0\<rparr>)"

section \<open>The Firestore server (backend/server.js)\<close>

text \<open>
  Firestore is outside the repository. Each handler is modelled with the calls it makes
  to Firestore as arguments: a call either rejects with a message, which the handler's
  \<open>catch\<close> reports as 500, or resolves with a value. \<open>ts\<close> is the time the server
  timestamp resolves to.
\<close>

datatype 'a outcome = Rejected string | Resolved 'a

record updateData =
  u_status :: string
  u_note :: string
  u_updatedAt :: int
  u_updatedBy :: string

definition server_updateData :: "int \<Rightarrow> put_body \<Rightarrow> updateData" where
  "server_updateData ts body =
     \<lparr>u_status = or_str (b_status body) ''Pending'',
      u_note = or_str (b_note body) [],
      u_updatedAt = ts,
      u_updatedBy = or_str (b_updatedBy body) ''user''\<rparr>"

definition server_put ::
  "bool \<Rightarrow> (string \<Rightarrow> updateData \<Rightarrow> unit outcome) \<Rightarrow> (string \<Rightarrow> receiptData outcome) \<Rightarrow>
   int \<Rightarrow> string \<Rightarrow> put_body \<Rightarrow> response" where
  "server_put firebaseInitialized fs_update fs_get ts docId body =
     (if \<not> firebaseInitialized then
        \<lparr>code = 503, payload = PError ''Firebase not initialized''\<rparr>
      else
        (case fs_update docId (server_updateData ts body) of
           Rejected msg \<Rightarrow> \<lparr>code = 500, payload = PError msg\<rparr>
         | Resolved u \<Rightarrow>
             (case fs_get docId of
                Rejected msg \<Rightarrow> \<lparr>code = 500, payload = PError msg\<rparr>
              | Resolved doc \<Rightarrow> \<lparr>code = 200, payload = PDoc docId doc\<rparr>)))"

definition server_delete :: "bool \<Rightarrow> (string \<Rightarrow> unit outcome) \<Rightarrow> string \<Rightarrow> response" where
  "server_delete firebaseInitialized fs_delete docId =
     (if \<not> firebaseInitialized then
        \<lparr>code = 503, payload = PError ''Firebase not initialized''\<rparr>
      else
        (case fs_delete docId of
           Rejected msg \<Rightarrow> \<lparr>code = 500, payload = PError msg\<rparr>
         | Resolved u \<Rightarrow> \<lparr>code = 200, payload = PDeletedDoc docId\<rparr>))"

definition server_post ::
  "bool \<Rightarrow> (receiptData \<Rightarrow> string outcome) \<Rightarrow> int \<Rightarrow> int \<Rightarrow> post_body \<Rightarrow> response" where
  "server_post firebaseInitialized fs_add ts now body =
     (if \<not> firebaseInitialized then
        \<lparr>code = 503, payload = PError ''Firebase not initialized''\<rparr>
      else if falsy_str (b_imageSrc body) \<or> falsy_str (b_extractedText body) then
        \<lparr>code = 400, payload = PError ''imageSrc and extractedText are required''\<rparr>
      else
        let receiptData0 =
              \<lparr>imageSrc = the (b_imageSrc body),
               extractedText = the (b_extractedText body),
               orderDate = or_str (b_orderDate body) ''N/A'',
               daysPassed = or_int (b_daysPassed body) 0,
               daysLeft = or_int (b_daysLeft body) 18,
               status = ''Pending'',
               note' = [],
               fileName = or_str (b_fileName body) (''receipt-'' @ show_int now),
               uploadedAt = ts,
               updatedAt = ts,
               updatedBy = ''system''\<rparr>
        in (case fs_add receiptData0 of
              Rejected msg \<Rightarrow> \<lparr>code = 500, payload = PError msg\<rparr>
            | Resolved docId \<Rightarrow>
                \<lparr>code = 201,
                 payload = PDoc docId (receiptData0\<lparr>uploadedAt := now, updatedAt := now\<rparr>)\<rparr>))"

text \<open>
  \<open>GET /api/alerts\<close>: \<open>pending\<close> is what the query
  \<open>where('status', '==', 'Pending')\<close> resolves to; the handler keeps the documents in
  the day window.
\<close>

definition server_alerts :: "bool \<Rightarrow> (string \<times> receiptData) list outcome \<Rightarrow> response" where
  "server_alerts firebaseInitialized pending =
     (if \<not> firebaseInitialized then
        \<lparr>code = 503, payload = PError ''Firebase not initialized''\<rparr>
      else
        (case pending of
           Rejected msg \<Rightarrow> \<lparr>code = 500, payload = PError msg\<rparr>
         | Resolved snapshot \<Rightarrow>
             \<lparr>code = 200,
              payload = PDocs (filter (\<lambda>(docId, data). 5 \<le> daysPassed data \<and> daysPassed data \<le> 18)
                                snapshot)\<rparr>))"

section \<open>The daily alert scan (\<open>checkAndSendAlerts\<close>)\<close>

text \<open>
  Strings are byte strings here: an emoji is its UTF-8 bytes, \<open>\n\<close> is the byte 10.
\<close>

definition nl :: string where
  "nl = [CHR 0x0A]"

definition emoji_bell :: string where
  "emoji_bell = [CHR 0xF0, CHR 0x9F, CHR 0x94, CHR 0x94]"

definition emoji_red :: string where
  "emoji_red = [CHR 0xF0, CHR 0x9F, CHR 0x94, CHR 0xB4]"

definition emoji_yellow :: string where
  "emoji_yellow = [CHR 0xF0, CHR 0x9F, CHR 0x9F, CHR 0xA1]"

definition emoji_orange :: string where
  "emoji_orange = [CHR 0xF0, CHR 0x9F, CHR 0x9F, CHR 0xA0]"

definition emoji_phone :: string where
  "emoji_phone = [CHR 0xF0, CHR 0x9F, CHR 0x93, CHR 0xB1]"

text \<open>The three loop variables of the scan.\<close>

record scan =
  alertCount :: nat
  messageText :: string
  hasAlerts :: bool

text \<open>The lines every reported document adds after its tier label.\<close>

definition order_lines :: "receiptData \<Rightarrow> string" where
  "order_lines data =
     ''Order: '' @ or_str (Some (fileName data)) ''N/A'' @ nl
     @ ''Date: '' @ orderDate data @ nl
     @ ''Days Passed: '' @ show_int (daysPassed data) @ nl
     @ ''Days Left: '' @ show_int (daysLeft data) @ nl @ nl"

text \<open>The body of \<open>snapshot.forEach\<close>.\<close>

definition scan_doc :: "scan \<Rightarrow> receiptData \<Rightarrow> scan" where
  "scan_doc s data =
     (if 5 \<le> daysPassed data \<and> daysPassed data \<le> 18 then
        let label =
              (if 18 < daysPassed data then emoji_red @ '' <b>OVERDUE</b>'' @ nl
               else if 9 \<le> daysPassed data then emoji_yellow @ '' <b>DUE SOON</b>'' @ nl
               else emoji_orange @ '' <b>DAY 5+</b>'' @ nl)
        in \<lparr>alertCount = alertCount s + 1,
            messageText = messageText s @ label @ order_lines data,
            hasAlerts = True\<rparr>
      else s)"

definition scan_start :: scan where
  "scan_start =
     \<lparr>alertCount = 0,
      messageText = ''<b>'' @ emoji_bell @ '' BAGIFY DAILY ALERT</b>'' @ nl @ nl,
      hasAlerts = False\<rparr>"

text \<open>
  \<open>checkAndSendAlerts\<close>: \<open>snapshot\<close> is what the query for pending receipts resolved
  to, \<open>app_url\<close> is the text \<open>${process.env.APP_URL}\<close> renders. The result is the
  message handed to \<open>sendTelegramMessage\<close>, or \<open>None\<close> when nothing is sent.
\<close>

definition checkAndSendAlerts :: "string \<Rightarrow> receiptData list \<Rightarrow> string option" where
  "checkAndSendAlerts app_url snapshot =
     (let s = foldl scan_doc scan_start snapshot
      in if hasAlerts s then
           Some (messageText s @ ''Total Alerts: '' @ show_nat (alertCount s) @ nl
                 @ nl @ ''<a href='' @ [CHR 0x22] @ app_url @ [CHR 0x22] @ ''>'' @ emoji_phone
                 @ '' Open Dashboard</a>'')
         else None)"

text \<open>
  The loop body with the \<open>OVERDUE\<close> branch removed: only the \<open>DUE SOON\<close> and
  \<open>DAY 5+\<close> labels are left.
\<close>

definition scan_doc_two_labels :: "scan \<Rightarrow> receiptData \<Rightarrow> scan" where
  "scan_doc_two_labels s data =
     (if 5 \<le> daysPassed data \<and> daysPassed data \<le> 18 then
        let label =
              (if 9 \<le> daysPassed data then emoji_yellow @ '' <b>DUE SOON</b>'' @ nl
               else emoji_orange @ '' <b>DAY 5+</b>'' @ nl)
        in \<lparr>alertCount = alertCount s + 1,
            messageText = messageText s @ label @ order_lines data,
            hasAlerts = True\<rparr>
      else s)"

definition checkAndSendAlerts_two_labels :: "string \<Rightarrow> receiptData list \<Rightarrow> string option" where
  "checkAndSendAlerts_two_labels app_url snapshot =
     (let s = foldl scan_doc_two_labels scan_start snapshot
      in if hasAlerts s then
           Some (messageText s @ ''Total Alerts: '' @ show_nat (alertCount s) @ nl
                 @ nl @ ''<a href='' @ [CHR 0x22] @ app_url @ [CHR 0x22] @ ''>'' @ emoji_phone
                 @ '' Open Dashboard</a>'')
         else None)"

section \<open>Example inputs\<close>

definition ex_receipt :: receipt where
  "ex_receipt = \<lparr>imageSrc = ''x'', extractedText = ''y'', orderDate = ''2025-10-10'',
     daysPassed = 14, daysLeft = 4, status = ''Done'', note' = ''paid'', fileName = ''r.png'',
     uploadedAt = 1000, updatedAt = 1000, updatedBy = ''system'', id' = 1\<rparr>"

definition old_receipt :: receipt where
  "old_receipt = \<lparr>imageSrc = ''a'', extractedText = ''b'', orderDate = ''N/A'',
     daysPassed = 0, daysLeft = 18, status = ''Pending'', note' = [], fileName = ''old.png'',
     uploadedAt = 5000, updatedAt = 5000, updatedBy = ''system'', id' = 1\<rparr>"

definition xy_body :: post_body where
  "xy_body = \<lparr>b_imageSrc = Some ''x'', b_extractedText = Some ''y'', b_orderDate = None,
     b_daysPassed = None, b_daysLeft = None, b_fileName = Some ''new.png''\<rparr>"

definition new_receipt :: receipt where
  "new_receipt = \<lparr>imageSrc = ''x'', extractedText = ''y'', orderDate = ''N/A'',
     daysPassed = 0, daysLeft = 18, status = ''Pending'', note' = [], fileName = ''new.png'',
     uploadedAt = 5000, updatedAt = 5000, updatedBy = ''system'', id' = 2\<rparr>"

definition client_body :: post_body where
  "client_body = \<lparr>b_imageSrc = Some ''x'', b_extractedText = Some ''y'',
     b_orderDate = Some ''2025-10-01'', b_daysPassed = Some 3, b_daysLeft = Some 7,
     b_fileName = Some ''r.png''\<rparr>"

definition client_receipt :: receipt where
  "client_receipt = \<lparr>imageSrc = ''x'', extractedText = ''y'', orderDate = ''2025-10-01'',
     daysPassed = 3, daysLeft = 7, status = ''Pending'', note' = [], fileName = ''r.png'',
     uploadedAt = 5000, updatedAt = 5000, updatedBy = ''system'', id' = 1\<rparr>"

section \<open>The aging calculator\<close>

lemma reference_day: "parse_date_only ''2025-10-24'' = Some 20385"
  by (simp add: parse_date_only_def digit_val_def DaysInMonth_def DayFromYear_def
      DaysBeforeMonth_def InLeapYear_def)

lemma date_only_getTime_es: "es_date_only date_only_getTime"
  by (simp add: es_date_only_def date_only_getTime_def)

lemma today_time:
  assumes "es_date_only getTime"
  shows "getTime ''2025-10-24'' = JNum 1761264000000"
  using assms reference_day by (simp add: es_date_only_def msPerDay_def)

lemma calc_parsed:
  assumes "es_date_only getTime" and "s \<noteq> ''N/A''" and "getTime s = JNum t"
  shows "calculateDateDifference getTime s
           = (JNum (- ((t - 1761264000000) div 86400000)),
              JNum (18 - (- ((t - 1761264000000) div 86400000))))"
  using assms(2,3) today_time[OF assms(1)] by (simp add: calculateDateDifference_def Let_def)

lemma calc_example:
  assumes "es_date_only getTime"
  shows "calculateDateDifference getTime ''2025-10-01'' = (JNum 23, JNum (- 5))"
proof -
  have "parse_date_only ''2025-10-01'' = Some 20362"
    by (simp add: parse_date_only_def digit_val_def DaysInMonth_def DayFromYear_def
        DaysBeforeMonth_def InLeapYear_def)
  then have "getTime ''2025-10-01'' = JNum 1759276800000"
    using assms by (simp add: es_date_only_def msPerDay_def)
  then show ?thesis
    using calc_parsed[OF assms, of "''2025-10-01''" 1759276800000] by simp
qed

lemma div_ge_one_iff: "(1 \<le> (a::int) div 86400000) = (86400000 \<le> a)"
proof -
  have "(0 < a div 86400000) = (86400000 \<le> a)"
    by (rule pos_imp_zdiv_pos_iff) simp
  then show ?thesis by linarith
qed

text \<open>
  Claim C8. Let the engine read date-only strings as ECMAScript fixes them. The sentinel
  \<open>N/A\<close> gives \<open>(0, 18)\<close>. For every other order date that the engine parses, to the
  instant \<open>t\<close>, and with \<open>r\<close> the instant of the reference day 2025-10-24, \<open>daysPassed\<close>
  is the ceiling of \<open>(r - t)\<close> over one day and \<open>daysLeft\<close> is \<open>18 - daysPassed\<close>. An
  order date \<open>YYYY-MM-DD\<close> later than the reference day is accepted and gives a
  negative \<open>daysPassed\<close> and a \<open>daysLeft\<close> above 18.
\<close>

theorem aging_relation:
  assumes "es_date_only getTime"
  shows "calculateDateDifference getTime ''N/A'' = (JNum 0, JNum 18)
   \<and> (s \<noteq> ''N/A'' \<and> getTime s = JNum t \<longrightarrow>
        (\<exists>r p. getTime ''2025-10-24'' = JNum r
           \<and> calculateDateDifference getTime s = (JNum p, JNum (18 - p))
           \<and> p = \<lceil>(real_of_int r - real_of_int t) / 86400000\<rceil>
           \<and> (parse_date_only s \<noteq> None \<and> r < t \<longrightarrow> p < 0 \<and> 18 < 18 - p)))"
proof (intro conjI impI)
  show "calculateDateDifference getTime ''N/A'' = (JNum 0, JNum 18)"
    by (simp add: calculateDateDifference_def)
next
  assume h: "s \<noteq> ''N/A'' \<and> getTime s = JNum t"
  then have t: "getTime s = JNum t" and na: "s \<noteq> ''N/A''" by simp_all
  define r :: int where "r = 1761264000000"
  define p :: int where "p = - ((t - r) div 86400000)"
  have ceil: "p = \<lceil>(real_of_int r - real_of_int t) / 86400000\<rceil>"
  proof -
    have "\<lceil>real_of_int (r - t) / real_of_int 86400000\<rceil> = - (- (r - t) div 86400000)"
      by (rule ceiling_divide_eq_div)
    then show ?thesis by (simp add: p_def)
  qed
  have neg: "p < 0 \<longleftrightarrow> r + 86400000 \<le> t"
  proof -
    have "p < 0 \<longleftrightarrow> 1 \<le> (t - r) div 86400000" by (auto simp: p_def)
    also have "\<dots> \<longleftrightarrow> 86400000 \<le> t - r" by (rule div_ge_one_iff)
    finally show ?thesis by auto
  qed
  have whole: "r + 86400000 \<le> t" if date: "parse_date_only s \<noteq> None" and later: "r < t"
  proof -
    obtain day where "parse_date_only s = Some day"
      using date by auto
    then have "getTime s = JNum (day * msPerDay)"
      using assms by (simp add: es_date_only_def)
    then have day: "t = day * 86400000"
      using t by (simp add: msPerDay_def)
    have "20385 < day" using later by (simp add: day r_def)
    then have "20386 \<le> day" by simp
    then show ?thesis by (simp add: day r_def)
  qed
  have "calculateDateDifference getTime s = (JNum p, JNum (18 - p))"
    using calc_parsed[OF assms na t] by (simp add: p_def r_def)
  then show "\<exists>r p. getTime ''2025-10-24'' = JNum r
           \<and> calculateDateDifference getTime s = (JNum p, JNum (18 - p))
           \<and> p = \<lceil>(real_of_int r - real_of_int t) / 86400000\<rceil>
           \<and> (parse_date_only s \<noteq> None \<and> r < t \<longrightarrow> p < 0 \<and> 18 < 18 - p)"
    using ceil neg whole today_time[OF assms]
    by (intro exI[of _ r] exI[of _ p]) (auto simp: r_def)
qed

text \<open>
  The theorem for the reader of date-only strings, at the order date 2025-11-01, eight
  days after the reference day.
\<close>

theorem aging_relation_witness:
  "date_only_getTime ''2025-11-01'' = JNum 1761955200000
   \<and> calculateDateDifference date_only_getTime ''N/A'' = (JNum 0, JNum 18)
   \<and> calculateDateDifference date_only_getTime ''2025-11-01'' = (JNum (- 8), JNum 26)"
proof -
  have d: "parse_date_only ''2025-11-01'' = Some 20393"
    by (simp add: parse_date_only_def digit_val_def DaysInMonth_def DayFromYear_def
        DaysBeforeMonth_def InLeapYear_def)
  then have t: "date_only_getTime ''2025-11-01'' = JNum 1761955200000"
    by (simp add: date_only_getTime_def msPerDay_def)
  show ?thesis
    using aging_relation[OF date_only_getTime_es, of "''2025-11-01''" 1761955200000]
      t d today_time[OF date_only_getTime_es]
    by auto
qed

section \<open>The status classifier\<close>

lemma tierLabel_refines: "tierLabel st dp = Tier_label (classify_spec st dp)"
  by (cases dp) (auto simp: tierLabel_def classify_spec_def)

lemma styling_refines: "getUrgencyStyling st dp = Tier_styling (classify_spec st dp)"
  by (simp add: getUrgencyStyling_def classify_spec_def)

text \<open>
  Claim C5. The label and the styling the row renders are those of the tier the
  specification's rule gives, for every status and every \<open>daysPassed\<close> (\<open>NaN\<close>
  included): \<open>Done\<close> is \<open>COMPLETED\<close> whatever \<open>daysPassed\<close> is; otherwise above 18 is
  \<open>OVERDUE\<close>; otherwise 9 to 18 is \<open>DUE_SOON\<close>; otherwise \<open>OK\<close>. Distinct tiers have
  distinct labels, so the label names exactly one tier.
\<close>

theorem classifier_total_deterministic:
  "tierLabel st dp = Tier_label (classify_spec st dp)
   \<and> getUrgencyStyling st dp = Tier_styling (classify_spec st dp)
   \<and> classify_spec Done dp = COMPLETED
   \<and> classify_spec st dp =
       (if st = Done then COMPLETED
        else if js_gt dp 18 then OVERDUE
        else if js_ge dp 9 \<and> js_le dp 18 then DUE_SOON
        else OK)
   \<and> inj Tier_label"
proof -
  have "inj Tier_label"
  proof (rule injI)
    fix a b assume "Tier_label a = Tier_label b"
    then show "a = b" by (cases a; cases b) simp_all
  qed
  then show ?thesis
    using tierLabel_refines styling_refines by (simp add: classify_spec_def)
qed

section \<open>Create\<close>

text \<open>
  Claim C2, as the code has it. A create request with non-empty \<open>imageSrc\<close> and
  \<open>extractedText\<close> appends one record with status \<open>Pending\<close> and an empty note. The
  server does not derive the aging fields from \<open>orderDate\<close>: the same request with any
  other \<open>orderDate\<close>, or none, is stored with the same \<open>daysPassed\<close> and \<open>daysLeft\<close>.
  \<open>daysPassed\<close> is the \<open>daysPassed\<close> the request sent, and 0 when it sent none;
  \<open>daysLeft\<close> is the \<open>daysLeft\<close> the request sent when that is not zero, and 18 when
  it sent none. The Firestore server, once Firebase is initialised, hands Firestore a
  document with the same fields, and answers 201 with it when Firestore resolves.
\<close>

theorem post_receipt_aging_fields:
  assumes "\<not> falsy_str (b_imageSrc body)" and "\<not> falsy_str (b_extractedText body)"
  shows "(\<exists>r. post_receipt now body st
            = (st\<lparr>receipts := receipts st @ [r], receiptId := receiptId st + 1\<rparr>,
               \<lparr>code = 201, payload = PReceipt r\<rparr>)
       \<and> status r = ''Pending'' \<and> note' r = []
       \<and> daysPassed r = (case b_daysPassed body of None \<Rightarrow> 0 | Some n \<Rightarrow> n)
       \<and> (b_daysLeft body = None \<longrightarrow> daysLeft r = 18)
       \<and> (\<forall>n. b_daysLeft body = Some n \<and> n \<noteq> 0 \<longrightarrow> daysLeft r = n)
       \<and> (\<forall>od. \<exists>r2. snd (post_receipt now (body\<lparr>b_orderDate := od\<rparr>) st)
                        = \<lparr>code = 201, payload = PReceipt r2\<rparr>
                   \<and> daysPassed r2 = daysPassed r \<and> daysLeft r2 = daysLeft r))
     \<and> (\<exists>d0. server_post True fs_add ts now body
                = (case fs_add d0 of
                     Rejected msg \<Rightarrow> \<lparr>code = 500, payload = PError msg\<rparr>
                   | Resolved docId \<Rightarrow>
                       \<lparr>code = 201,
                        payload = PDoc docId (d0\<lparr>uploadedAt := now, updatedAt := now\<rparr>)\<rparr>)
       \<and> status d0 = ''Pending'' \<and> note' d0 = []
       \<and> daysPassed d0 = (case b_daysPassed body of None \<Rightarrow> 0 | Some n \<Rightarrow> n)
       \<and> (b_daysLeft body = None \<longrightarrow> daysLeft d0 = 18)
       \<and> (\<forall>n. b_daysLeft body = Some n \<and> n \<noteq> 0 \<longrightarrow> daysLeft d0 = n)
       \<and> orderDate d0 = or_str (b_orderDate body) ''N/A'')"
proof (intro conjI)
  show "\<exists>r. post_receipt now body st
            = (st\<lparr>receipts := receipts st @ [r], receiptId := receiptId st + 1\<rparr>,
               \<lparr>code = 201, payload = PReceipt r\<rparr>)
       \<and> status r = ''Pending'' \<and> note' r = []
       \<and> daysPassed r = (case b_daysPassed body of None \<Rightarrow> 0 | Some n \<Rightarrow> n)
       \<and> (b_daysLeft body = None \<longrightarrow> daysLeft r = 18)
       \<and> (\<forall>n. b_daysLeft body = Some n \<and> n \<noteq> 0 \<longrightarrow> daysLeft r = n)
       \<and> (\<forall>od. \<exists>r2. snd (post_receipt now (body\<lparr>b_orderDate := od\<rparr>) st)
                        = \<lparr>code = 201, payload = PReceipt r2\<rparr>
                   \<and> daysPassed r2 = daysPassed r \<and> daysLeft r2 = daysLeft r)"
    using assms
    by (cases "b_daysPassed body"; cases "b_daysLeft body")
       (auto simp: post_receipt_def Let_def)
next
  define d0 where "d0 = \<lparr>imageSrc = the (b_imageSrc body),
               extractedText = the (b_extractedText body),
               orderDate = or_str (b_orderDate body) ''N/A'',
               daysPassed = or_int (b_daysPassed body) 0,
               daysLeft = or_int (b_daysLeft body) 18,
               status = ''Pending'',
               note' = [],
               fileName = or_str (b_fileName body) (''receipt-'' @ show_int now),
               uploadedAt = ts,
               updatedAt = ts,
               updatedBy = ''system''\<rparr>"
  have run: "server_post True fs_add ts now body
                = (case fs_add d0 of
                     Rejected msg \<Rightarrow> \<lparr>code = 500, payload = PError msg\<rparr>
                   | Resolved docId \<Rightarrow>
                       \<lparr>code = 201,
                        payload = PDoc docId (d0\<lparr>uploadedAt := now, updatedAt := now\<rparr>)\<rparr>)"
    using assms unfolding d0_def
    by (simp add: server_post_def Let_def split: outcome.splits)
  have fields: "status d0 = ''Pending'' \<and> note' d0 = []
       \<and> daysPassed d0 = (case b_daysPassed body of None \<Rightarrow> 0 | Some n \<Rightarrow> n)
       \<and> (b_daysLeft body = None \<longrightarrow> daysLeft d0 = 18)
       \<and> (\<forall>n. b_daysLeft body = Some n \<and> n \<noteq> 0 \<longrightarrow> daysLeft d0 = n)
       \<and> orderDate d0 = or_str (b_orderDate body) ''N/A''"
    by (cases "b_daysPassed body"; cases "b_daysLeft body") (auto simp: d0_def)
  show "\<exists>d0. server_post True fs_add ts now body
                = (case fs_add d0 of
                     Rejected msg \<Rightarrow> \<lparr>code = 500, payload = PError msg\<rparr>
                   | Resolved docId \<Rightarrow>
                       \<lparr>code = 201,
                        payload = PDoc docId (d0\<lparr>uploadedAt := now, updatedAt := now\<rparr>)\<rparr>)
       \<and> status d0 = ''Pending'' \<and> note' d0 = []
       \<and> daysPassed d0 = (case b_daysPassed body of None \<Rightarrow> 0 | Some n \<Rightarrow> n)
       \<and> (b_daysLeft body = None \<longrightarrow> daysLeft d0 = 18)
       \<and> (\<forall>n. b_daysLeft body = Some n \<and> n \<noteq> 0 \<longrightarrow> daysLeft d0 = n)
       \<and> orderDate d0 = or_str (b_orderDate body) ''N/A''"
    using run fields by (intro exI[of _ d0]) simp
qed

text \<open>The theorem at a request that sends \<open>daysPassed = 3\<close> and \<open>daysLeft = 7\<close>.\<close>

theorem post_receipt_aging_fields_witness:
  "\<exists>r. snd (post_receipt 5000 client_body \<lparr>receipts = [], receiptId = 1\<rparr>)
          = \<lparr>code = 201, payload = PReceipt r\<rparr>
       \<and> status r = ''Pending'' \<and> note' r = [] \<and> daysPassed r = 3 \<and> daysLeft r = 7"
proof -
  have a: "\<not> falsy_str (b_imageSrc client_body)" and b: "\<not> falsy_str (b_extractedText client_body)"
    by (simp_all add: client_body_def)
  have "b_daysPassed client_body = Some 3" and "b_daysLeft client_body = Some 7"
    by (simp_all add: client_body_def)
  then show ?thesis
    using post_receipt_aging_fields[OF a b, of 5000 "\<lparr>receipts = [], receiptId = 1\<rparr>",
        THEN conjunct1]
    by auto
qed

text \<open>
  For the order date 2025-10-01 the calculator gives \<open>(23, -5)\<close>, but a request that
  sends 3 and 7 with that order date is stored with 3 and 7.
\<close>

theorem post_receipt_trusts_client_counterexample:
  "calculateDateDifference date_only_getTime ''2025-10-01'' = (JNum 23, JNum (- 5))
   \<and> b_orderDate client_body = Some ''2025-10-01''
   \<and> b_daysPassed client_body = Some 3 \<and> b_daysLeft client_body = Some 7
   \<and> post_receipt 5000 client_body \<lparr>receipts = [], receiptId = 1\<rparr>
       = (\<lparr>receipts = [client_receipt], receiptId = 2\<rparr>,
          \<lparr>code = 201, payload = PReceipt client_receipt\<rparr>)
   \<and> orderDate client_receipt = ''2025-10-01''
   \<and> daysPassed client_receipt = 3 \<and> daysLeft client_receipt = 7"
  using calc_example[OF date_only_getTime_es]
  by (simp add: post_receipt_def client_body_def client_receipt_def Let_def)

text \<open>
  Claim C10. A create request whose \<open>imageSrc\<close> or \<open>extractedText\<close> is the empty
  string is answered 400 and leaves the store as it was; the Firestore server, once
  Firebase is initialised, answers 400 too, whatever Firestore would do. The answer is
  the one the same request gets with that field absent.
\<close>

theorem post_empty_string_400:
  assumes "b_imageSrc body = Some [] \<or> b_extractedText body = Some []"
  shows "post_receipt now body st
           = (st, \<lparr>code = 400, payload = PError ''imageSrc and extractedText are required''\<rparr>)
     \<and> server_post True fs_add ts now body
           = \<lparr>code = 400, payload = PError ''imageSrc and extractedText are required''\<rparr>
     \<and> (b_imageSrc body = Some [] \<longrightarrow>
          post_receipt now body st = post_receipt now (body\<lparr>b_imageSrc := None\<rparr>) st)
     \<and> (b_extractedText body = Some [] \<longrightarrow>
          post_receipt now body st = post_receipt now (body\<lparr>b_extractedText := None\<rparr>) st)"
  using assms by (auto simp: post_receipt_def server_post_def)

text \<open>The theorem at a request with an empty \<open>imageSrc\<close>, on the empty store.\<close>

theorem post_empty_string_400_witness:
  "post_receipt 5000 \<lparr>b_imageSrc = Some [], b_extractedText = Some ''y'', b_orderDate = None,
          b_daysPassed = None, b_daysLeft = None, b_fileName = None\<rparr> \<lparr>receipts = [], receiptId = 1\<rparr>
    = (\<lparr>receipts = [], receiptId = 1\<rparr>,
       \<lparr>code = 400, payload = PError ''imageSrc and extractedText are required''\<rparr>)"
  using post_empty_string_400[of "\<lparr>b_imageSrc = Some [], b_extractedText = Some ''y'', b_orderDate = None,
          b_daysPassed = None, b_daysLeft = None, b_fileName = None\<rparr>" 5000 "\<lparr>receipts = [], receiptId = 1\<rparr>"]
  by simp

section \<open>Update\<close>

lemma find_Some_holds: "find P xs = Some x \<Longrightarrow> P x"
  by (induction xs) (auto split: if_splits)

lemma find_None_absent: "find P xs = None \<longleftrightarrow> (\<forall>x \<in> set xs. \<not> P x)"
  by (induction xs) auto

lemma replace_first_others:
  "P y \<Longrightarrow> filter (\<lambda>x. \<not> P x) (replace_first P y xs) = filter (\<lambda>x. \<not> P x) xs"
  by (induction xs) auto

lemma replace_first_length: "length (replace_first P y xs) = length xs"
  by (induction xs) auto

text \<open>
  Claim C1, as the in-memory server has it. An update of a receipt that exists answers
  200 with the updated record. A request without \<open>status\<close> leaves the status as it was,
  a request without \<open>note\<close> leaves the note as it was, a non-empty \<open>status\<close> and any
  \<open>note\<close> that is sent are stored, and \<open>id\<close>, \<open>imageSrc\<close>, \<open>extractedText\<close>,
  \<open>orderDate\<close>, \<open>daysPassed\<close>, \<open>daysLeft\<close>, \<open>fileName\<close> and \<open>uploadedAt\<close> keep their
  values. \<open>updatedAt\<close> becomes the time of the request, and \<open>updatedBy\<close> becomes the
  request's \<open>updatedBy\<close>, or \<open>user\<close> when the request has none. The other receipts and
  the id counter are untouched.
\<close>

theorem put_receipt_partial:
  assumes "find (\<lambda>r. Some (id' r) = pid) (receipts st) = Some receipt"
  shows "\<exists>r' st'. put_receipt now pid body st = (st', \<lparr>code = 200, payload = PReceipt r'\<rparr>)
     \<and> (b_status body = None \<longrightarrow> status r' = status receipt)
     \<and> (b_note body = None \<longrightarrow> note' r' = note' receipt)
     \<and> (\<forall>s. b_status body = Some s \<and> s \<noteq> [] \<longrightarrow> status r' = s)
     \<and> (\<forall>n. b_note body = Some n \<longrightarrow> note' r' = n)
     \<and> id' r' = id' receipt \<and> imageSrc r' = imageSrc receipt
     \<and> extractedText r' = extractedText receipt \<and> orderDate r' = orderDate receipt
     \<and> daysPassed r' = daysPassed receipt \<and> daysLeft r' = daysLeft receipt
     \<and> fileName r' = fileName receipt \<and> uploadedAt r' = uploadedAt receipt
     \<and> updatedAt r' = now \<and> updatedBy r' = or_str (b_updatedBy body) ''user''
     \<and> length (receipts st') = length (receipts st)
     \<and> filter (\<lambda>r. Some (id' r) \<noteq> pid) (receipts st')
         = filter (\<lambda>r. Some (id' r) \<noteq> pid) (receipts st)
     \<and> receiptId st' = receiptId st"
proof -
  have pid: "Some (id' receipt) = pid"
    using find_Some_holds[OF assms] .
  define r1 where "r1 = (if falsy_str (b_status body) then receipt
                         else receipt\<lparr>status := the (b_status body)\<rparr>)"
  define r' where "r' = (case b_note body of None \<Rightarrow> r1 | Some n \<Rightarrow> r1\<lparr>note' := n\<rparr>)
       \<lparr>updatedAt := now, updatedBy := or_str (b_updatedBy body) ''user''\<rparr>"
  define st' where "st' = st\<lparr>receipts := replace_first (\<lambda>r. Some (id' r) = pid) r' (receipts st)\<rparr>"
  have run: "put_receipt now pid body st = (st', \<lparr>code = 200, payload = PReceipt r'\<rparr>)"
    using assms unfolding r'_def r1_def st'_def by (simp add: put_receipt_def Let_def)
  have idr: "id' r' = id' receipt"
    by (simp add: r'_def r1_def split: option.splits)
  have others: "filter (\<lambda>r. Some (id' r) \<noteq> pid) (receipts st')
         = filter (\<lambda>r. Some (id' r) \<noteq> pid) (receipts st)"
    using replace_first_others[of "\<lambda>r. Some (id' r) = pid" r' "receipts st"] idr pid
    by (simp add: st'_def)
  have fields: "(b_status body = None \<longrightarrow> status r' = status receipt)
     \<and> (b_note body = None \<longrightarrow> note' r' = note' receipt)
     \<and> (\<forall>s. b_status body = Some s \<and> s \<noteq> [] \<longrightarrow> status r' = s)
     \<and> (\<forall>n. b_note body = Some n \<longrightarrow> note' r' = n)
     \<and> imageSrc r' = imageSrc receipt
     \<and> extractedText r' = extractedText receipt \<and> orderDate r' = orderDate receipt
     \<and> daysPassed r' = daysPassed receipt \<and> daysLeft r' = daysLeft receipt
     \<and> fileName r' = fileName receipt \<and> uploadedAt r' = uploadedAt receipt
     \<and> updatedAt r' = now \<and> updatedBy r' = or_str (b_updatedBy body) ''user''"
    by (cases "b_status body"; cases "b_note body") (auto simp: r'_def r1_def)
  show ?thesis
    using run idr others fields
    by (intro exI[of _ r'] exI[of _ st']) (simp add: st'_def replace_first_length)
qed

text \<open>
  The theorem at a request that sends only a note, for a receipt whose status is
  \<open>Done\<close>: the status stays \<open>Done\<close>.
\<close>

theorem put_receipt_partial_witness:
  "\<exists>r'. snd (put_receipt 2000 (Some 1) \<lparr>b_status = None, b_note = Some ''call back'', b_updatedBy = None\<rparr>
        \<lparr>receipts = [ex_receipt], receiptId = 2\<rparr>) = \<lparr>code = 200, payload = PReceipt r'\<rparr>
     \<and> status r' = ''Done'' \<and> note' r' = ''call back''"
proof -
  have f: "find (\<lambda>r. Some (id' r) = Some 1) (receipts \<lparr>receipts = [ex_receipt], receiptId = 2\<rparr>)
             = Some ex_receipt"
    by (simp add: ex_receipt_def)
  show ?thesis
    using put_receipt_partial[OF f, of 2000
        "\<lparr>b_status = None, b_note = Some ''call back'', b_updatedBy = None\<rparr>"]
    by (auto simp: ex_receipt_def)
qed

text \<open>
  The same request leaves out \<open>updatedBy\<close>, and the record's \<open>updatedBy\<close> changes from
  \<open>system\<close> to \<open>user\<close> (as \<open>updatedAt\<close> changes from 1000 to 2000): not every field
  the request omits keeps its value.
\<close>

theorem put_receipt_updatedBy_counterexample:
  "updatedBy ex_receipt = ''system''
   \<and> put_receipt 2000 (Some 1) \<lparr>b_status = None, b_note = Some ''call back'', b_updatedBy = None\<rparr>
        \<lparr>receipts = [ex_receipt], receiptId = 2\<rparr>
     = (\<lparr>receipts = [ex_receipt\<lparr>note' := ''call back'', updatedAt := 2000, updatedBy := ''user''\<rparr>],
         receiptId = 2\<rparr>,
        \<lparr>code = 200,
         payload = PReceipt (ex_receipt\<lparr>note' := ''call back'', updatedAt := 2000, updatedBy := ''user''\<rparr>)\<rparr>)"
  by (simp add: put_receipt_def ex_receipt_def Let_def)

text \<open>
  The Firestore server writes all four fields on every update: a request without
  \<open>status\<close> writes \<open>Pending\<close>, a request without \<open>note\<close> writes the empty note.
\<close>

lemma server_updateData_resets:
  "u_status (server_updateData ts \<lparr>b_status = None, b_note = Some n, b_updatedBy = u\<rparr>) = ''Pending''
   \<and> u_note (server_updateData ts \<lparr>b_status = Some s, b_note = None, b_updatedBy = u\<rparr>) = []"
  by (simp add: server_updateData_def)

section \<open>Unknown ids\<close>

lemma filter_same_length: "length (filter P xs) = length xs \<Longrightarrow> filter P xs = xs"
proof (induction xs)
  case Nil
  then show ?case by simp
next
  case (Cons x xs)
  have le: "length (filter P xs) \<le> length xs" by (rule length_filter_le)
  show ?case
  proof (cases "P x")
    case True
    with Cons show ?thesis by simp
  next
    case False
    with Cons.prems le show ?thesis by simp
  qed
qed

text \<open>
  The in-memory server: an update or a delete of an id that no receipt has answers 404
  and returns the store as it was.
\<close>

lemma in_memory_unknown_id_404:
  assumes "\<forall>r \<in> set (receipts st). Some (id' r) \<noteq> pid"
  shows "put_receipt now pid body st = (st, \<lparr>code = 404, payload = PError ''Receipt not found''\<rparr>)
     \<and> delete_receipt pid st = (st, \<lparr>code = 404, payload = PError ''Receipt not found''\<rparr>)"
proof -
  have "find (\<lambda>r. Some (id' r) = pid) (receipts st) = None"
    using assms by (simp add: find_None_absent)
  then have p: "put_receipt now pid body st
                  = (st, \<lparr>code = 404, payload = PError ''Receipt not found''\<rparr>)"
    by (simp add: put_receipt_def)
  have "filter (\<lambda>r. Some (id' r) \<noteq> pid) (receipts st) = receipts st"
    using assms by (simp add: filter_id_conv)
  then have "delete_receipt pid st = (st, \<lparr>code = 404, payload = PError ''Receipt not found''\<rparr>)"
    by (simp add: delete_receipt_def Let_def)
  with p show ?thesis by simp
qed

text \<open>Whenever the in-memory delete answers 404 it returns the store as it was.\<close>

lemma delete_404_unchanged:
  assumes "code (snd (delete_receipt pid st)) = 404"
  shows "fst (delete_receipt pid st) = st"
proof -
  have "length (filter (\<lambda>r. Some (id' r) \<noteq> pid) (receipts st)) = length (receipts st)"
    using assms by (auto simp: delete_receipt_def Let_def split: if_splits)
  then have "filter (\<lambda>r. Some (id' r) \<noteq> pid) (receipts st) = receipts st"
    by (rule filter_same_length)
  then show ?thesis by (simp add: delete_receipt_def Let_def)
qed

text \<open>After a delete no receipt has the deleted id.\<close>

lemma delete_then_absent:
  "\<forall>r \<in> set (receipts (fst (delete_receipt pid st))). Some (id' r) \<noteq> pid"
  by (simp add: delete_receipt_def Let_def)

text \<open>
  Claim C3 on backend/server.js. Whatever Firestore answers, the update and the delete
  handler of the Firestore server answer 200, 500 or 503, never 404: a delete that
  Firestore resolves is answered 200 with \<open>success\<close>, and an update that Firestore
  rejects is answered 500 with Firestore's message.
\<close>

theorem server_put_delete_no_404:
  "code (server_put firebaseInitialized fs_update fs_get ts docId body) \<in> {200, 500, 503}
   \<and> code (server_delete firebaseInitialized fs_delete docId) \<in> {200, 500, 503}
   \<and> server_delete True (\<lambda>d. Resolved ()) docId = \<lparr>code = 200, payload = PDeletedDoc docId\<rparr>
   \<and> server_put True (\<lambda>d u. Rejected msg) fs_get ts docId body = \<lparr>code = 500, payload = PError msg\<rparr>"
  by (simp add: server_put_def server_delete_def split: outcome.splits)

section \<open>Alerts\<close>

text \<open>
  Claim C4. \<open>GET /api/alerts\<close> answers 200 with a list whose members are exactly the
  stored receipts with status \<open>Pending\<close> and \<open>5 \<le> daysPassed \<le> 18\<close>, and leaves the
  store as it was. The Firestore server, given the documents its query for status
  \<open>Pending\<close> selects from a collection, answers with exactly the documents of the
  collection that satisfy the same predicate.
\<close>

theorem get_alerts_exact:
  "(\<exists>alerts. get_alerts st = (st, \<lparr>code = 200, payload = PReceipts alerts\<rparr>)
     \<and> set alerts = {r. r \<in> set (receipts st) \<and> status r = ''Pending''
                          \<and> 5 \<le> daysPassed r \<and> daysPassed r \<le> 18})
   \<and> (\<exists>alerts. server_alerts True (Resolved (filter (\<lambda>(docId, data). status data = ''Pending'') docs))
                  = \<lparr>code = 200, payload = PDocs alerts\<rparr>
     \<and> set alerts = {(docId, data). (docId, data) \<in> set docs \<and> status data = ''Pending''
                          \<and> 5 \<le> daysPassed data \<and> daysPassed data \<le> 18})"
  by (auto simp: get_alerts_def server_alerts_def)

text \<open>
  Claim C6. Let the engine read date-only strings as ECMAScript fixes them. With the
  reference day 2025-10-24 the order date 2025-10-01 gives \<open>daysPassed = 23\<close> (and
  \<open>daysLeft = -5\<close>); a pending receipt with 23 days passed is classified \<open>OVERDUE\<close>;
  and the receipt the client pipeline creates for that order date, stored with status
  \<open>Pending\<close> and \<open>daysPassed = 23\<close>, is in the store but not in the answer of
  \<open>GET /api/alerts\<close>.
\<close>

theorem scenario_2025_10_01:
  assumes "es_date_only getTime"
  shows "calculateDateDifference getTime ''2025-10-01'' = (JNum 23, JNum (- 5))
   \<and> classify_spec Pending (JNum 23) = OVERDUE
   \<and> tierLabel Pending (JNum 23) = ''OVERDUE''
   \<and> (\<exists>r st1 alerts.
        post_receipt now (receiptData_body getTime ''x'' ''y'' ''2025-10-01'' ''r.png'') st
          = (st1, \<lparr>code = 201, payload = PReceipt r\<rparr>)
        \<and> status r = Status_value Pending \<and> daysPassed r = 23 \<and> r \<in> set (receipts st1)
        \<and> get_alerts st1 = (st1, \<lparr>code = 200, payload = PReceipts alerts\<rparr>)
        \<and> r \<notin> set alerts)"
  using calc_example[OF assms]
  by (simp add: classify_spec_def tierLabel_def receiptData_body_def post_receipt_def
      get_alerts_def Let_def)

text \<open>
  The theorem for the reader of date-only strings, at a request made at time 5000 on
  the empty store.
\<close>

theorem scenario_2025_10_01_witness:
  "calculateDateDifference date_only_getTime ''2025-10-01'' = (JNum 23, JNum (- 5))
   \<and> classify_spec Pending (JNum 23) = OVERDUE
   \<and> tierLabel Pending (JNum 23) = ''OVERDUE''
   \<and> (\<exists>r st1 alerts.
        post_receipt 5000 (receiptData_body date_only_getTime ''x'' ''y'' ''2025-10-01'' ''r.png'')
            \<lparr>receipts = [], receiptId = 1\<rparr>
          = (st1, \<lparr>code = 201, payload = PReceipt r\<rparr>)
        \<and> status r = ''Pending'' \<and> daysPassed r = 23 \<and> r \<in> set (receipts st1)
        \<and> get_alerts st1 = (st1, \<lparr>code = 200, payload = PReceipts alerts\<rparr>)
        \<and> r \<notin> set alerts)"
  using scenario_2025_10_01[OF date_only_getTime_es, of 5000 "\<lparr>receipts = [], receiptId = 1\<rparr>"]
  by simp

lemma scan_doc_eq: "scan_doc s d = scan_doc_two_labels s d"
  by (simp add: scan_doc_def scan_doc_two_labels_def)

text \<open>
  Claim C9. For every query result and every dashboard address, the daily scan sends
  (or withholds) exactly the message of the scan whose loop body has no \<open>OVERDUE\<close>
  branch: a document reaches the label choice only with \<open>5 \<le> daysPassed \<le> 18\<close>, so the
  test \<open>daysPassed > 18\<close> is false there and only the \<open>DUE SOON\<close> and \<open>DAY 5+\<close> labels
  are written.
\<close>

theorem overdue_branch_unreachable:
  "checkAndSendAlerts app_url snapshot = checkAndSendAlerts_two_labels app_url snapshot"
proof -
  have "scan_doc = scan_doc_two_labels"
    by (intro ext) (rule scan_doc_eq)
  then show ?thesis
    by (simp add: checkAndSendAlerts_def checkAndSendAlerts_two_labels_def)
qed

section \<open>Create, then list\<close>

lemma sort_key_snoc_newest:
  fixes f :: "'a \<Rightarrow> int"
  assumes "\<forall>x \<in> set xs. f y < f x"
  shows "sort_key f (xs @ [y]) = y # sort_key f xs"
  using assms
proof (induction xs)
  case Nil
  then show ?case by simp
next
  case (Cons x xs)
  then have "sort_key f ((x # xs) @ [y]) = insort_key f x (y # sort_key f xs)"
    by simp
  also have "\<dots> = y # insort_key f x (sort_key f xs)"
    using Cons.prems by simp
  finally show ?case by simp
qed

text \<open>
  Claim C7, as the code has it. A create request with non-empty \<open>imageSrc\<close> and
  \<open>extractedText\<close> and without \<open>orderDate\<close>, \<open>daysPassed\<close> and \<open>daysLeft\<close> answers 201
  with a record that has \<open>orderDate = N/A\<close>, \<open>daysPassed = 0\<close>, \<open>daysLeft = 18\<close> and
  status \<open>Pending\<close>. When every receipt already stored has an earlier \<open>uploadedAt\<close>, a
  following list request answers with that record first, followed by the older
  receipts, latest first.
\<close>

theorem create_then_list_first:
  assumes "\<not> falsy_str (b_imageSrc body)" and "\<not> falsy_str (b_extractedText body)"
    and "b_orderDate body = None" and "b_daysPassed body = None" and "b_daysLeft body = None"
    and "\<forall>r \<in> set (receipts st). uploadedAt r < now"
  shows "\<exists>r st1 st2 older. post_receipt now body st = (st1, \<lparr>code = 201, payload = PReceipt r\<rparr>)
     \<and> orderDate r = ''N/A'' \<and> daysPassed r = 0 \<and> daysLeft r = 18 \<and> status r = ''Pending''
     \<and> get_receipts st1 = (st2, \<lparr>code = 200, payload = PReceipts (r # older)\<rparr>)
     \<and> older = sort_key (\<lambda>r. - uploadedAt r) (receipts st)"
proof -
  define r where "r = \<lparr>imageSrc = the (b_imageSrc body),
               extractedText = the (b_extractedText body),
               orderDate = ''N/A'', daysPassed = 0, daysLeft = 18,
               status = ''Pending'', note' = [],
               fileName = or_str (b_fileName body) (''receipt-'' @ show_int now),
               uploadedAt = now, updatedAt = now, updatedBy = ''system'',
               id' = receiptId st\<rparr>"
  define st1 where "st1 = st\<lparr>receipts := receipts st @ [r], receiptId := receiptId st + 1\<rparr>"
  have post: "post_receipt now body st = (st1, \<lparr>code = 201, payload = PReceipt r\<rparr>)"
    using assms(1-5) by (simp add: post_receipt_def Let_def r_def st1_def)
  have "\<forall>x \<in> set (receipts st). - uploadedAt r < - uploadedAt x"
    using assms(6) by (simp add: r_def)
  then have sorted: "sort_key (\<lambda>r. - uploadedAt r) (receipts st @ [r])
                 = r # sort_key (\<lambda>r. - uploadedAt r) (receipts st)"
    by (rule sort_key_snoc_newest)
  have list: "get_receipts st1
      = (st1\<lparr>receipts := r # sort_key (\<lambda>r. - uploadedAt r) (receipts st)\<rparr>,
         \<lparr>code = 200, payload = PReceipts (r # sort_key (\<lambda>r. - uploadedAt r) (receipts st))\<rparr>)"
    using sorted by (simp add: get_receipts_def st1_def Let_def)
  have fields: "orderDate r = ''N/A'' \<and> daysPassed r = 0 \<and> daysLeft r = 18 \<and> status r = ''Pending''"
    by (simp add: r_def)
  show ?thesis
    using post list fields by blast
qed

text \<open>
  The theorem at a request made at time 6000 on a store whose one receipt was uploaded
  at time 5000: the list is the new record, then the old one.
\<close>

theorem create_then_list_first_witness:
  "\<exists>r st1 st2. post_receipt 6000 xy_body \<lparr>receipts = [old_receipt], receiptId = 2\<rparr>
           = (st1, \<lparr>code = 201, payload = PReceipt r\<rparr>)
      \<and> orderDate r = ''N/A'' \<and> daysPassed r = 0 \<and> daysLeft r = 18 \<and> status r = ''Pending''
      \<and> get_receipts st1 = (st2, \<lparr>code = 200, payload = PReceipts [r, old_receipt]\<rparr>)"
  using create_then_list_first[of xy_body "\<lparr>receipts = [old_receipt], receiptId = 2\<rparr>" 6000]
  by (simp add: xy_body_def old_receipt_def)

text \<open>
  A request made in the millisecond in which the stored receipt was uploaded: the sort
  is stable, so the list keeps the older receipt first. And a request without
  \<open>orderDate\<close> that sends \<open>daysPassed = 7\<close> and \<open>daysLeft = 11\<close> is stored with 7 and 11.
\<close>

theorem create_list_tie_counterexample:
  "post_receipt 5000 xy_body \<lparr>receipts = [old_receipt], receiptId = 2\<rparr>
     = (\<lparr>receipts = [old_receipt, new_receipt], receiptId = 3\<rparr>,
        \<lparr>code = 201, payload = PReceipt new_receipt\<rparr>)
   \<and> get_receipts \<lparr>receipts = [old_receipt, new_receipt], receiptId = 3\<rparr>
     = (\<lparr>receipts = [old_receipt, new_receipt], receiptId = 3\<rparr>,
        \<lparr>code = 200, payload = PReceipts [old_receipt, new_receipt]\<rparr>)
   \<and> new_receipt \<noteq> old_receipt
   \<and> post_receipt 6000 (xy_body\<lparr>b_daysPassed := Some 7, b_daysLeft := Some 11\<rparr>)
        \<lparr>receipts = [], receiptId = 1\<rparr>
     = (\<lparr>receipts = [new_receipt\<lparr>daysPassed := 7, daysLeft := 11, uploadedAt := 6000,
                                   updatedAt := 6000, id' := 1\<rparr>], receiptId = 2\<rparr>,
        \<lparr>code = 201,
         payload = PReceipt (new_receipt\<lparr>daysPassed := 7, daysLeft := 11, uploadedAt := 6000,
                                        updatedAt := 6000, id' := 1\<rparr>)\<rparr>)"
  by (simp add: post_receipt_def get_receipts_def xy_body_def old_receipt_def new_receipt_def
      Let_def)

end
